theory Spec2Isabelle
  imports Complex_Main "HOL-Library.Sublist"
begin

section \<open>The glucose simulator's batch layer (glucose\_sbi/glucose\_simulator.py)\<close>

text \<open>
  The module patches a copy of a default simulation environment with one row of inferred
  parameters, builds one such copy per row of a parameter matrix, and runs the copies.
  The Python objects it mutates are the scenario list of an environment
  (\<open>env.scenario.scenario\<close>) and the parameter record of its patient
  (\<open>env.patient._params\<close>). Both live in an explicit store, so that copying and
  aliasing are visible. Numbers are reals: the module only moves them around.
\<close>

subsection \<open>Errors and the store\<close>

datatype error = IndexError | ValueError | LookupError | SimulationFailure

type_synonym addr = nat

text \<open>A scenario is Python's list of (meal name, amount) tuples.\<close>

type_synonym scenario = "(string \<times> real) list"

text \<open>
  The patient's parameter record as its attributes: \<open>getattr\<close> is lookup and
  \<open>setattr\<close> is update. Python's \<open>setattr\<close> on an object that does not restrict its
  attributes binds the name whether or not it was bound before; the record is a pandas
  Series, which stores a name it does not know as a plain attribute. The module itself
  never looks a name up before setting it.
\<close>

type_synonym param_record = "string \<rightharpoonup> real"

record heap =
  lists :: "addr \<Rightarrow> scenario"
  series :: "addr \<Rightarrow> param_record"
  next_free :: addr

text \<open>
  The runnable object \<open>SimObj\<close> built by \<open>load_default_simulation_env\<close>: references
  to its two mutable parts, and the parts this module never changes by value.
\<close>

record sim_obj =
  patient_ref :: addr
  scenario_ref :: addr
  start_time :: int
  sensor :: "string \<times> nat"
  pump :: string
  sim_time :: int
  animate :: bool

text \<open>
  Modelled from the spec: the dataclass \<open>InferredParams\<close> of
  \<open>glucose_sbi.prepare_priors\<close> is not among the sources; the module reads only its
  field \<open>params_names\<close>, the ordered sequence of parameter names.
\<close>

record inferred_params =
  params_names :: "string list"

text \<open>The dataclass \<open>DeafultSimulationEnv\<close>; its scenario field is a reference to a list.\<close>

record deafult_simulation_env =
  patient_name :: string
  sensor_name :: string
  pump_name :: string
  scenario_list :: addr
  hours_field :: int

subsection \<open>Separating meal and non-meal parameters\<close>

text \<open>Python's \<open>needle in hay\<close> on strings.\<close>

fun str_in :: "string \<Rightarrow> string \<Rightarrow> bool" where
  "str_in needle [] = (needle = [])"
| "str_in needle (c # cs) = (take (length needle) (c # cs) = needle \<or> str_in needle cs)"

text \<open>\<open>[xs[i] for i in idx]\<close>: the first index out of range raises IndexError.\<close>

fun getitems :: "'a list \<Rightarrow> nat list \<Rightarrow> error + 'a list" where
  "getitems xs [] = Inr []"
| "getitems xs (i # idx) =
     (if i < length xs
      then (case getitems xs idx of Inl e \<Rightarrow> Inl e | Inr vs \<Rightarrow> Inr (xs ! i # vs))
      else Inl IndexError)"

definition meal_entries :: "string list \<Rightarrow> (nat \<times> string) list" where
  "meal_entries param_names =
     filter (\<lambda>(i, param). str_in ''meal'' param) (enumerate 0 param_names)"

definition non_meal_indices_and_params :: "string list \<Rightarrow> (nat \<times> string) list" where
  "non_meal_indices_and_params param_names =
     filter (\<lambda>(i, param). \<not> str_in ''meal'' param) (enumerate 0 param_names)"

definition separate_parameters ::
  "string list \<Rightarrow> real list \<Rightarrow> error + (nat list \<times> real list \<times> string list \<times> real list)" where
  "separate_parameters param_names theta_list =
     (let meal_indices = map fst (meal_entries param_names) in
      case getitems theta_list meal_indices of
        Inl e \<Rightarrow> Inl e
      | Inr meal_values \<Rightarrow>
          (let other_params = map snd (non_meal_indices_and_params param_names) in
           case getitems theta_list (map fst (non_meal_indices_and_params param_names)) of
             Inl e \<Rightarrow> Inl e
           | Inr other_values \<Rightarrow> Inr (meal_indices, meal_values, other_params, other_values)))"

subsection \<open>Updating the scenario and the patient\<close>

text \<open>
  The loop of \<open>_update_meal_parameters\<close> over \<open>enumerate(scenario)\<close>: position \<open>i\<close> is
  overwritten in place before position \<open>i + 1\<close> is read, and \<open>meal_values[i]\<close> raises
  IndexError once the values run out. The list is returned as the loop left it.
\<close>

function update_meal_loop :: "nat \<Rightarrow> scenario \<Rightarrow> real list \<Rightarrow> (error + unit) \<times> scenario" where
  "update_meal_loop i scenario meal_values =
     (if i < length scenario
      then (case scenario ! i of
              (meal_name, _) \<Rightarrow>
                if i < length meal_values
                then update_meal_loop (Suc i) (scenario[i := (meal_name, meal_values ! i)]) meal_values
                else (Inl IndexError, scenario))
      else (Inr (), scenario))"
  by pat_completeness auto
termination
  by (relation "measure (\<lambda>(i, scenario, meal_values). length scenario - i)") auto

declare update_meal_loop.simps [simp del]

definition update_meal_parameters :: "addr \<Rightarrow> real list \<Rightarrow> heap \<Rightarrow> (error + unit) \<times> heap" where
  "update_meal_parameters scenario meal_values h =
     (case update_meal_loop 0 (lists h scenario) meal_values of
        (r, l) \<Rightarrow> (r, h\<lparr>lists := (lists h)(scenario := l)\<rparr>))"

text \<open>\<open>for param, value in zip(params, values): setattr(patient._params, param, value)\<close>\<close>

definition setattr_all :: "string list \<Rightarrow> real list \<Rightarrow> param_record \<Rightarrow> param_record" where
  "setattr_all params vals r = fold (\<lambda>(param, v) r. r(param \<mapsto> v)) (zip params vals) r"

definition update_patient_parameters :: "addr \<Rightarrow> string list \<Rightarrow> real list \<Rightarrow> heap \<Rightarrow> heap" where
  "update_patient_parameters patient params vals h =
     h\<lparr>series := (series h)(patient := setattr_all params vals (series h patient))\<rparr>"

subsection \<open>The parameter patcher\<close>

definition set_custom_params ::
  "sim_obj \<Rightarrow> real list \<Rightarrow> inferred_params \<Rightarrow> bool \<Rightarrow> heap \<Rightarrow> (error + unit) \<times> heap" where
  "set_custom_params default_simulation_env theta inferred infer_meal_params h =
     (let theta_list = theta;
          param_names = params_names inferred;
          patient = patient_ref default_simulation_env
      in case separate_parameters param_names theta_list of
           Inl e \<Rightarrow> (Inl e, h)
         | Inr (meal_indices, meal_values, other_params, other_values) \<Rightarrow>
             (case (if infer_meal_params \<and> meal_indices \<noteq> []
                    then update_meal_parameters (scenario_ref default_simulation_env) meal_values h
                    else (Inr (), h)) of
                (Inl e, h1) \<Rightarrow> (Inl e, h1)
              | (Inr _, h1) \<Rightarrow>
                  (Inr (), update_patient_parameters patient other_params other_values h1)))"

subsection \<open>What an environment holds\<close>

text \<open>
  Everything a run can depend on: the patient's record and the scenario list as the store
  has them, and the fixed fields of the object.
\<close>

type_synonym contents =
  "param_record \<times> scenario \<times> int \<times> (string \<times> nat) \<times> string \<times> int \<times> bool"

definition contents_of :: "heap \<Rightarrow> sim_obj \<Rightarrow> contents" where
  "contents_of h e =
     (series h (patient_ref e), lists h (scenario_ref e),
      start_time e, sensor e, pump e, sim_time e, animate e)"

subsection \<open>External collaborators\<close>

text \<open>
  The simulator library, the clock and the tensor library are not part of this module.
  They are parameters: the catalogue lookups of \<open>withName\<close> (absent names fail), the
  midnight of the current day, the glucose readings a run of an environment produces
  (\<open>None\<close> when \<open>simulate()\<close> raises), and the rounding of \<open>.float()\<close>.
\<close>

record externals =
  patient_withName :: "string \<rightharpoonup> param_record"
  sensor_withName :: "string \<Rightarrow> bool"
  pump_withName :: "string \<Rightarrow> bool"
  today_midnight :: int
  cgm_readings :: "contents \<Rightarrow> real list option"
  to_float32 :: "real \<Rightarrow> real"

subsection \<open>The environment factory\<close>

definition load_default_simulation_env ::
  "externals \<Rightarrow> deafult_simulation_env \<Rightarrow> int \<Rightarrow> heap \<Rightarrow> (error + sim_obj) \<times> heap" where
  "load_default_simulation_env x env_settings hours h =
     (let start = today_midnight x in
      case patient_withName x (patient_name env_settings) of
        None \<Rightarrow> (Inl LookupError, h)
      | Some params \<Rightarrow>
          (let patient = next_free h;
               h1 = h\<lparr>series := (series h)(patient := params), next_free := Suc patient\<rparr>
           in if \<not> sensor_withName x (sensor_name env_settings) then (Inl LookupError, h1)
              else if \<not> pump_withName x (pump_name env_settings) then (Inl LookupError, h1)
              else (Inr \<lparr>patient_ref = patient,
                         scenario_ref = scenario_list env_settings,
                         start_time = start,
                         sensor = (sensor_name env_settings, 1),
                         pump = pump_name env_settings,
                         sim_time = hours,
                         animate = False\<rparr>, h1)))"

text \<open>
  \<open>deepcopy\<close> allocates a fresh patient record and a fresh scenario list holding what the
  originals hold (tuples and numbers are immutable, so they need no copy).
\<close>

definition deepcopy :: "sim_obj \<Rightarrow> heap \<Rightarrow> sim_obj \<times> heap" where
  "deepcopy e h =
     (let a = next_free h in
      (e\<lparr>patient_ref := a, scenario_ref := Suc a\<rparr>,
       h\<lparr>lists := (lists h)(Suc a := lists h (scenario_ref e)),
         series := (series h)(a := series h (patient_ref e)),
         next_free := Suc (Suc a)\<rparr>))"

text \<open>The loop \<open>for _, theta_i in enumerate(theta)\<close>, with the list built so far.\<close>

fun custom_envs_loop ::
  "sim_obj \<Rightarrow> real list list \<Rightarrow> inferred_params \<Rightarrow> bool \<Rightarrow> sim_obj list \<Rightarrow> heap
   \<Rightarrow> (error + sim_obj list) \<times> heap" where
  "custom_envs_loop default_simulation_env [] inferred infer_meal_params simulation_envs h =
     (Inr simulation_envs, h)"
| "custom_envs_loop default_simulation_env (theta_i # rest) inferred infer_meal_params
       simulation_envs h =
     (case deepcopy default_simulation_env h of
        (custom_sim_env, h1) \<Rightarrow>
          (case set_custom_params custom_sim_env theta_i inferred infer_meal_params h1 of
             (Inl e, h2) \<Rightarrow> (Inl e, h2)
           | (Inr _, h2) \<Rightarrow>
               custom_envs_loop default_simulation_env rest inferred infer_meal_params
                 (simulation_envs @ [custom_sim_env]) h2))"

definition create_simulation_envs_with_custom_params ::
  "externals \<Rightarrow> real list list \<Rightarrow> deafult_simulation_env \<Rightarrow> inferred_params \<Rightarrow> int \<Rightarrow> bool
   \<Rightarrow> heap \<Rightarrow> (error + sim_obj list) \<times> heap" where
  "create_simulation_envs_with_custom_params x theta default_settings inferred hours
       infer_meal_params h =
     (case load_default_simulation_env x default_settings hours h of
        (Inl e, h1) \<Rightarrow> (Inl e, h1)
      | (Inr default_simulation_env, h1) \<Rightarrow>
          custom_envs_loop default_simulation_env theta inferred infer_meal_params [] h1)"

subsection \<open>The batch runner\<close>

datatype device = Cpu | Cuda nat

datatype dtype = Float32 | Float64

record tensor =
  entries :: "real list list"
  tensor_dtype :: dtype
  tensor_device :: device

text \<open>What a caller can observe of a run besides its result.\<close>

datatype event = Logged string | PoolOpened | Simulated sim_obj | PoolClosed

definition simulate_glucose_dynamics :: "externals \<Rightarrow> heap \<Rightarrow> sim_obj \<Rightarrow> real list option" where
  "simulate_glucose_dynamics x h simulation_env = cgm_readings x (contents_of h simulation_env)"

text \<open>
  \<open>with Pool() as p: p.map(f, simulations)\<close>: the pool is opened and closed whatever the
  list holds; every environment is run; the results come back in the order of the list,
  and the map raises when a run raised.
\<close>

definition pool_map :: "(sim_obj \<Rightarrow> real list option) \<Rightarrow> sim_obj list
    \<Rightarrow> real list list option \<times> event list" where
  "pool_map f simulations =
     (those (map f simulations), [PoolOpened] @ map Simulated simulations @ [PoolClosed])"

text \<open>\<open>[f(s) for s in tqdm(simulations)]\<close>: stops at the first run that raises.\<close>

fun sequential_map :: "(sim_obj \<Rightarrow> real list option) \<Rightarrow> sim_obj list
    \<Rightarrow> real list list option \<times> event list" where
  "sequential_map f [] = (Some [], [])"
| "sequential_map f (s # rest) =
     (case f s of
        None \<Rightarrow> (None, [Simulated s])
      | Some r \<Rightarrow>
          (case sequential_map f rest of
             (None, ev) \<Rightarrow> (None, Simulated s # ev)
           | (Some rs, ev) \<Rightarrow> (Some (r # rs), Simulated s # ev)))"

text \<open>
  \<open>np.stack\<close> raises ValueError on an empty sequence ("need at least one array to
  stack") and on arrays of different shapes.
\<close>

definition np_stack :: "real list list \<Rightarrow> error + real list list" where
  "np_stack arrays =
     (case arrays of
        [] \<Rightarrow> Inl ValueError
      | a # rest \<Rightarrow>
          if list_all (\<lambda>b. length b = length a) rest then Inr arrays else Inl ValueError)"

text \<open>The local assignment \<open>pathos = True\<close> at the head of \<open>simulate_batch\<close>.\<close>

definition pathos :: bool where
  "pathos = True"

definition simulate_batch ::
  "externals \<Rightarrow> heap \<Rightarrow> sim_obj list \<Rightarrow> device \<Rightarrow> bool \<Rightarrow> (error + tensor) \<times> event list" where
  "simulate_batch x h simulations dev logger =
     (case (if pathos
            then (case pool_map (simulate_glucose_dynamics x h) simulations of
                    (r, ev) \<Rightarrow>
                      (r, (if logger then [Logged ''Using pathos for parallel processing'']
                           else []) @ ev))
            else sequential_map (simulate_glucose_dynamics x h) simulations) of
        (None, ev) \<Rightarrow> (Inl SimulationFailure, ev)
      | (Some results, ev) \<Rightarrow>
          (case np_stack results of
             Inl e \<Rightarrow> (Inl e, ev)
           | Inr stacked \<Rightarrow>
               (Inr \<lparr>entries = map (map (to_float32 x)) stacked,
                     tensor_dtype = Float32,
                     tensor_device = dev\<rparr>,
                ev @ (if logger then [Logged ''Simulation took %s seconds''] else []))))"

subsection \<open>The orchestrator\<close>

definition run_glucose_simulator ::
  "externals \<Rightarrow> real list list \<Rightarrow> deafult_simulation_env \<Rightarrow> inferred_params \<Rightarrow> int \<Rightarrow> device
   \<Rightarrow> bool \<Rightarrow> bool \<Rightarrow> heap \<Rightarrow> ((error + tensor) \<times> event list) \<times> heap" where
  "run_glucose_simulator x theta default_settings inferred hours dev infer_meal_params
       logger h =
     (let ev0 = (if logger
                 then [Logged ''Running the glucose simulator on theta of shape, %s'']
                 else [])
      in case create_simulation_envs_with_custom_params x theta default_settings inferred
                hours infer_meal_params h of
           (Inl e, h1) \<Rightarrow> ((Inl e, ev0), h1)
         | (Inr simulation_envs, h1) \<Rightarrow>
             (case simulate_batch x h1 simulation_envs dev logger of
                (r, ev) \<Rightarrow> ((r, ev0 @ ev), h1)))"

subsection \<open>Notions used in the statements\<close>

text \<open>
  The values \<open>_separate_parameters\<close> reads from a row that is long enough: those at the
  indices of the names containing "meal", and those at the other indices.
\<close>

definition meal_values_of :: "string list \<Rightarrow> real list \<Rightarrow> real list" where
  "meal_values_of names theta = map ((!) theta) (map fst (meal_entries names))"

definition other_values_of :: "string list \<Rightarrow> real list \<Rightarrow> real list" where
  "other_values_of names theta = map ((!) theta) (map fst (non_meal_indices_and_params names))"

text \<open>
  A scenario whose leading entries have their amounts replaced by the values there are;
  entries beyond the values, and values beyond the entries, are left alone.
\<close>

definition overwritten :: "scenario \<Rightarrow> real list \<Rightarrow> scenario" where
  "overwritten sc mv = map (\<lambda>((n, _), v). (n, v)) (zip sc mv) @ drop (length mv) sc"

text \<open>A row the patcher accepts on an environment whose scenario has \<open>n\<close> entries.\<close>

definition row_accepted :: "inferred_params \<Rightarrow> bool \<Rightarrow> nat \<Rightarrow> real list \<Rightarrow> bool" where
  "row_accepted ip infer n row =
     (length (params_names ip) \<le> length row \<and>
      (\<not> infer \<or> meal_entries (params_names ip) = [] \<or> n \<le> length (meal_entries (params_names ip))))"

subsection \<open>Example data\<close>

text \<open>
  A loaded environment: its scenario list is object 0 and its patient's record object 1.
\<close>

definition demo_env :: sim_obj where
  "demo_env = \<lparr>patient_ref = 1, scenario_ref = 0, start_time = 0, sensor = (''Dexcom'', 1),
     pump = ''Insulet'', sim_time = 24, animate = False\<rparr>"

definition demo_heap :: heap where
  "demo_heap = \<lparr>lists = (\<lambda>_. [])(0 := [(''breakfast'', 40)]),
     series = (\<lambda>_. Map.empty)(1 := [''BW'' \<mapsto> 68]), next_free = 2\<rparr>"

definition two_meal_heap :: heap where
  "two_meal_heap = \<lparr>lists = (\<lambda>_. [])(0 := [(''breakfast'', 40), (''lunch'', 50)]),
     series = (\<lambda>_. Map.empty)(1 := [''BW'' \<mapsto> 68]), next_free = 2\<rparr>"

text \<open>
  A store that holds only the scenario list of the settings (object 0), the settings that
  refer to it, and collaborators that know one patient, one sensor and one pump; their
  runs read the scenario's amounts back and their \<open>.float()\<close> rounds nothing.
\<close>

definition settings_heap :: heap where
  "settings_heap = \<lparr>lists = (\<lambda>_. [])(0 := [(''breakfast'', 40)]),
     series = (\<lambda>_. Map.empty), next_free = 1\<rparr>"

definition two_meal_settings_heap :: heap where
  "two_meal_settings_heap = \<lparr>lists = (\<lambda>_. [])(0 := [(''breakfast'', 40), (''lunch'', 50)]),
     series = (\<lambda>_. Map.empty), next_free = 1\<rparr>"

definition demo_settings :: deafult_simulation_env where
  "demo_settings = \<lparr>patient_name = ''adolescent#001'', sensor_name = ''Dexcom'',
     pump_name = ''Insulet'', scenario_list = 0, hours_field = 24\<rparr>"

definition demo_externals :: externals where
  "demo_externals = \<lparr>patient_withName = [''adolescent#001'' \<mapsto> [''BW'' \<mapsto> 68]],
     sensor_withName = (\<lambda>n. n = ''Dexcom''), pump_withName = (\<lambda>n. n = ''Insulet''),
     today_midnight = 0, cgm_readings = (\<lambda>(params, meals, fixed). Some (map snd meals)),
     to_float32 = (\<lambda>v. v)\<rparr>"

section \<open>Properties of the parts\<close>

subsection \<open>Substring test and indexing\<close>

text \<open>The substring test is the library's contiguous-sublist relation.\<close>

lemma str_in_sublist: "str_in n s = sublist n s"
proof (induction s)
  case Nil then show ?case by simp
next
  case (Cons c cs)
  have "sublist n (c # cs) = (prefix n (c # cs) \<or> sublist n cs)"
    by (simp add: sublist_Cons_right)
  moreover have "prefix n (c # cs) = (take (length n) (c # cs) = n)"
    by (metis prefix_def append_take_drop_id append_eq_conv_conj)
  ultimately show ?case using Cons by simp
qed

lemma getitems_eq:
  "getitems xs idx =
     (if list_all (\<lambda>i. i < length xs) idx then Inr (map ((!) xs) idx) else Inl IndexError)"
  by (induction idx) auto

lemma meal_indices_bound: "i \<in> fst ` set (meal_entries names) \<Longrightarrow> i < length names"
  by (auto simp: meal_entries_def in_set_enumerate_eq)

lemma non_meal_indices_bound:
  "i \<in> fst ` set (non_meal_indices_and_params names) \<Longrightarrow> i < length names"
  by (auto simp: non_meal_indices_and_params_def in_set_enumerate_eq)

lemma index_in_either:
  assumes "i < length names"
  shows "i \<in> fst ` set (meal_entries names) \<or> i \<in> fst ` set (non_meal_indices_and_params names)"
proof -
  have "(i, names ! i) \<in> set (enumerate 0 names)"
    using assms by (simp add: in_set_enumerate_eq)
  then show ?thesis
    by (cases "str_in ''meal'' (names ! i)")
       (force simp: meal_entries_def non_meal_indices_and_params_def)+
qed

lemma separate_parameters_long:
  assumes "length names \<le> length theta"
  shows "separate_parameters names theta =
     Inr (map fst (meal_entries names),
          map ((!) theta) (map fst (meal_entries names)),
          map snd (non_meal_indices_and_params names),
          map ((!) theta) (map fst (non_meal_indices_and_params names)))"
proof -
  have "list_all (\<lambda>i. i < length theta) (map fst (meal_entries names))"
    using assms meal_indices_bound[of _ names] by (fastforce simp: list_all_iff)
  moreover have "list_all (\<lambda>i. i < length theta) (map fst (non_meal_indices_and_params names))"
    using assms non_meal_indices_bound[of _ names] by (fastforce simp: list_all_iff)
  ultimately show ?thesis
    by (simp add: separate_parameters_def getitems_eq Let_def)
qed

lemma separate_parameters_short:
  assumes "length theta < length names"
  shows "separate_parameters names theta = Inl IndexError"
proof -
  consider (m) "length theta \<in> fst ` set (meal_entries names)"
    | (o) "length theta \<in> fst ` set (non_meal_indices_and_params names)"
    using index_in_either[OF assms] by blast
  then show ?thesis
  proof cases
    case m
    then have "\<not> list_all (\<lambda>i. i < length theta) (map fst (meal_entries names))"
      by (force simp: list_all_iff)
    then show ?thesis
      by (simp add: separate_parameters_def getitems_eq Let_def)
  next
    case o
    then have "\<not> list_all (\<lambda>i. i < length theta) (map fst (non_meal_indices_and_params names))"
      by (force simp: list_all_iff)
    then show ?thesis
      by (simp add: separate_parameters_def getitems_eq Let_def)
  qed
qed

lemma update_meal_loop_eq:
  "update_meal_loop i sc mv =
     (if length sc \<le> length mv \<or> length sc \<le> i then Inr () else Inl IndexError,
      take i sc @ map (\<lambda>((n, _), v). (n, v)) (zip (drop i sc) (drop i mv))
        @ drop (max i (length mv)) sc)"
proof (induction i sc mv rule: update_meal_loop.induct)
  case (1 i sc mv)
  show ?case
  proof (cases "i < length sc")
    case False
    then show ?thesis by (subst update_meal_loop.simps) simp
  next
    case True
    note il = True
    obtain n a where si: "sc ! i = (n, a)" by (cases "sc ! i")
    show ?thesis
    proof (cases "i < length mv")
      case False
      then have "drop i mv = []" by simp
      moreover have "max i (length mv) = i" using False by simp
      ultimately show ?thesis using il False si
        by (subst update_meal_loop.simps) simp
    next
      case True
      let ?sc' = "sc[i := (n, mv ! i)]"
      have IH: "update_meal_loop (Suc i) ?sc' mv =
         (if length ?sc' \<le> length mv \<or> length ?sc' \<le> Suc i then Inr () else Inl IndexError,
          take (Suc i) ?sc' @ map (\<lambda>((n, _), v). (n, v)) (zip (drop (Suc i) ?sc') (drop (Suc i) mv))
            @ drop (max (Suc i) (length mv)) ?sc')"
        using "1.IH"[OF il si[symmetric] True] .
      have step: "update_meal_loop i sc mv = update_meal_loop (Suc i) ?sc' mv"
        using il True si by (subst update_meal_loop.simps) simp
      have t: "take (Suc i) ?sc' = take i sc @ [(n, mv ! i)]"
        using il by (simp add: take_Suc_conv_app_nth)
      have d1: "drop (Suc i) ?sc' = drop (Suc i) sc" by simp
      have d2: "drop (max (Suc i) (length mv)) ?sc' = drop (max i (length mv)) sc"
        using True by (simp add: max_def)
      have z: "zip (drop i sc) (drop i mv) = ((n, a), mv ! i) # zip (drop (Suc i) sc) (drop (Suc i) mv)"
        using il True si by (simp add: Cons_nth_drop_Suc[symmetric])
      have c: "(length ?sc' \<le> length mv \<or> length ?sc' \<le> Suc i) = (length sc \<le> length mv \<or> length sc \<le> i)"
        using il True by auto
      show ?thesis
        unfolding step IH t d1 d2 z c by simp
    qed
  qed
qed

lemma update_meal_loop_0:
  "update_meal_loop 0 sc mv =
     (if length sc \<le> length mv then Inr () else Inl IndexError, overwritten sc mv)"
  by (simp add: update_meal_loop_eq overwritten_def)

lemma fold_setattr:
  "fold (\<lambda>(param, v) r. r(param \<mapsto> v)) kvs r = r ++ map_of (rev kvs)"
proof (induction kvs arbitrary: r)
  case Nil
  then show ?case by simp
next
  case (Cons kv kvs)
  obtain k v where kv: "kv = (k, v)" by (cases kv)
  let ?f = "\<lambda>(param, v) r. r(param \<mapsto> v)"
  have "fold ?f (kv # kvs) r = fold ?f kvs (r(k \<mapsto> v))"
    unfolding kv by simp
  also have "\<dots> = r(k \<mapsto> v) ++ map_of (rev kvs)"
    by (rule Cons.IH)
  also have "\<dots> = r ++ ([k \<mapsto> v] ++ map_of (rev kvs))"
    by (rule ext) (simp add: map_add_def split: option.split)
  also have "[k \<mapsto> v] ++ map_of (rev kvs) = map_of (rev (kv # kvs))"
    unfolding kv by (simp add: map_of_append)
  finally show ?case .
qed

lemma setattr_all_eq: "setattr_all ps vs r = r ++ map_of (rev (zip ps vs))"
  by (simp add: setattr_all_def fold_setattr)

subsection \<open>The patcher\<close>

lemma set_custom_params_short:
  assumes "length theta < length (params_names ip)"
  shows "set_custom_params e theta ip infer h = (Inl IndexError, h)"
  using separate_parameters_short[OF assms] by (simp add: set_custom_params_def)

lemma set_custom_params_long:
  assumes "length (params_names ip) \<le> length theta"
  shows "set_custom_params e theta ip infer h =
     (if infer \<and> meal_entries (params_names ip) \<noteq> []
      then (if length (lists h (scenario_ref e)) \<le> length (meal_entries (params_names ip))
            then (Inr (),
                  update_patient_parameters (patient_ref e)
                    (map snd (non_meal_indices_and_params (params_names ip)))
                    (other_values_of (params_names ip) theta)
                    (h\<lparr>lists := (lists h)(scenario_ref e :=
                         overwritten (lists h (scenario_ref e)) (meal_values_of (params_names ip) theta))\<rparr>))
            else (Inl IndexError,
                  h\<lparr>lists := (lists h)(scenario_ref e :=
                         overwritten (lists h (scenario_ref e)) (meal_values_of (params_names ip) theta))\<rparr>))
      else (Inr (),
            update_patient_parameters (patient_ref e)
              (map snd (non_meal_indices_and_params (params_names ip)))
              (other_values_of (params_names ip) theta) h))"
  using separate_parameters_long[OF assms]
  by (simp add: set_custom_params_def update_meal_parameters_def update_meal_loop_0
      meal_values_of_def other_values_of_def)

lemma values_take:
  assumes "length names \<le> length theta"
  shows "meal_values_of names (take (length names) theta) = meal_values_of names theta"
    and "other_values_of names (take (length names) theta) = other_values_of names theta"
  using meal_indices_bound[of _ names] non_meal_indices_bound[of _ names]
  by (auto simp: meal_values_of_def other_values_of_def)

lemma set_custom_params_frame:
  assumes "set_custom_params e theta ip infer h = (r, h')"
  shows "next_free h' = next_free h"
    and "a \<noteq> scenario_ref e \<Longrightarrow> lists h' a = lists h a"
    and "b \<noteq> patient_ref e \<Longrightarrow> series h' b = series h b"
proof -
  have "next_free h' = next_free h \<and> (a \<noteq> scenario_ref e \<longrightarrow> lists h' a = lists h a)
      \<and> (b \<noteq> patient_ref e \<longrightarrow> series h' b = series h b)"
  proof (cases "length theta < length (params_names ip)")
    case True
    then show ?thesis using assms by (simp add: set_custom_params_short)
  next
    case False
    then have "length (params_names ip) \<le> length theta" by simp
    from set_custom_params_long[OF this, of e infer h] assms show ?thesis
      by (auto simp: update_patient_parameters_def split: if_splits)
  qed
  then show "next_free h' = next_free h"
    and "a \<noteq> scenario_ref e \<Longrightarrow> lists h' a = lists h a"
    and "b \<noteq> patient_ref e \<Longrightarrow> series h' b = series h b" by simp_all
qed

lemma set_custom_params_local:
  assumes "lists h1 (scenario_ref e1) = lists h2 (scenario_ref e2)"
    and "series h1 (patient_ref e1) = series h2 (patient_ref e2)"
  shows "fst (set_custom_params e1 theta ip infer h1) = fst (set_custom_params e2 theta ip infer h2)"
    and "lists (snd (set_custom_params e1 theta ip infer h1)) (scenario_ref e1)
         = lists (snd (set_custom_params e2 theta ip infer h2)) (scenario_ref e2)"
    and "series (snd (set_custom_params e1 theta ip infer h1)) (patient_ref e1)
         = series (snd (set_custom_params e2 theta ip infer h2)) (patient_ref e2)"
proof -
  have "fst (set_custom_params e1 theta ip infer h1) = fst (set_custom_params e2 theta ip infer h2)
    \<and> lists (snd (set_custom_params e1 theta ip infer h1)) (scenario_ref e1)
         = lists (snd (set_custom_params e2 theta ip infer h2)) (scenario_ref e2)
    \<and> series (snd (set_custom_params e1 theta ip infer h1)) (patient_ref e1)
         = series (snd (set_custom_params e2 theta ip infer h2)) (patient_ref e2)"
  proof (cases "length theta < length (params_names ip)")
    case True
    then show ?thesis using assms by (simp add: set_custom_params_short)
  next
    case False
    then have "length (params_names ip) \<le> length theta" by simp
    then show ?thesis using assms
      by (simp add: set_custom_params_long update_patient_parameters_def)
  qed
  then show "fst (set_custom_params e1 theta ip infer h1) = fst (set_custom_params e2 theta ip infer h2)"
    and "lists (snd (set_custom_params e1 theta ip infer h1)) (scenario_ref e1)
         = lists (snd (set_custom_params e2 theta ip infer h2)) (scenario_ref e2)"
    and "series (snd (set_custom_params e1 theta ip infer h1)) (patient_ref e1)
         = series (snd (set_custom_params e2 theta ip infer h2)) (patient_ref e2)" by simp_all
qed

subsection \<open>Copies and the batch loop\<close>

lemma deepcopy_facts:
  assumes "deepcopy d h = (c, h1)"
  shows "patient_ref c = next_free h" and "scenario_ref c = Suc (next_free h)"
    and "next_free h1 = Suc (Suc (next_free h))"
    and "lists h1 = (lists h)(Suc (next_free h) := lists h (scenario_ref d))"
    and "series h1 = (series h)(next_free h := series h (patient_ref d))"
    and "start_time c = start_time d" and "sensor c = sensor d" and "pump c = pump d"
    and "sim_time c = sim_time d" and "animate c = animate d"
  using assms by (auto simp: deepcopy_def Let_def)

lemma deepcopy_contents:
  assumes "deepcopy d h = (c, h1)"
  shows "contents_of h1 c = contents_of h d"
  using deepcopy_facts[OF assms] by (simp add: contents_of_def)

lemma custom_envs_loop_frame:
  "custom_envs_loop d theta ip infer acc h = (r, h') \<Longrightarrow>
     next_free h \<le> next_free h' \<and>
     (\<forall>a<next_free h. lists h' a = lists h a \<and> series h' a = series h a)"
proof (induction theta arbitrary: acc h)
  case Nil
  then show ?case by simp
next
  case (Cons row rest)
  obtain c h1 where dc: "deepcopy d h = (c, h1)" by (cases "deepcopy d h")
  obtain r2 h2 where sp: "set_custom_params c row ip infer h1 = (r2, h2)"
    by (cases "set_custom_params c row ip infer h1")
  note f1 = deepcopy_facts[OF dc]
  note f2 = set_custom_params_frame[OF sp]
  have step: "next_free h \<le> next_free h2 \<and>
     (\<forall>a<next_free h. lists h2 a = lists h a \<and> series h2 a = series h a)"
  proof (intro conjI allI impI)
    show "next_free h \<le> next_free h2" using f1(3) f2(1) by simp
  next
    fix a assume a: "a < next_free h"
    then have "a \<noteq> scenario_ref c" "a \<noteq> patient_ref c" using f1(1,2) by simp_all
    then have "lists h2 a = lists h1 a" "series h2 a = series h1 a"
      using f2(2,3) by simp_all
    then show "lists h2 a = lists h a" "series h2 a = series h a"
      using a f1(4,5) by simp_all
  qed
  show ?case
  proof (cases r2)
    case (Inl e)
    then have "(r, h') = (Inl e, h2)" using Cons.prems dc sp by simp
    then show ?thesis using step by simp
  next
    case (Inr u)
    then have "custom_envs_loop d rest ip infer (acc @ [c]) h2 = (r, h')"
      using Cons.prems dc sp by simp
    from Cons.IH[OF this] step show ?thesis by auto
  qed
qed

lemma set_custom_params_accepted:
  assumes "row_accepted ip infer (length (lists h (scenario_ref e))) row"
  shows "fst (set_custom_params e row ip infer h) = Inr ()"
  using assms by (auto simp: row_accepted_def set_custom_params_long)

lemma custom_envs_loop_correct:
  assumes "patient_ref d < next_free h" and "scenario_ref d < next_free h"
    and "list_all (row_accepted ip infer (length (lists h (scenario_ref d)))) theta"
  shows "\<exists>envs h'. custom_envs_loop d theta ip infer acc h = (Inr (acc @ envs), h') \<and>
      length envs = length theta \<and>
      (\<forall>i<length theta.
         contents_of h' (envs ! i) =
         contents_of (snd (set_custom_params (fst (deepcopy d h)) (theta ! i) ip infer
                              (snd (deepcopy d h))))
           (fst (deepcopy d h)))"
  using assms
proof (induction theta arbitrary: acc h)
  case Nil
  then show ?case by simp
next
  case (Cons row rest)
  obtain c h1 where dc: "deepcopy d h = (c, h1)" by (cases "deepcopy d h")
  obtain r2 h2 where sp: "set_custom_params c row ip infer h1 = (r2, h2)"
    by (cases "set_custom_params c row ip infer h1")
  note f1 = deepcopy_facts[OF dc]
  note f2 = set_custom_params_frame[OF sp]
  have sc1: "lists h1 (scenario_ref c) = lists h (scenario_ref d)"
    using f1 by simp
  have "row_accepted ip infer (length (lists h1 (scenario_ref c))) row"
    using Cons.prems(3) sc1 by simp
  from set_custom_params_accepted[OF this] sp have r2: "r2 = Inr ()" by simp
  have dl: "lists h2 (scenario_ref d) = lists h (scenario_ref d)"
    using Cons.prems(2) f1 f2(2)[of "scenario_ref d"] by simp
  have ds: "series h2 (patient_ref d) = series h (patient_ref d)"
    using Cons.prems(1) f1 f2(3)[of "patient_ref d"] by simp
  have p2: "patient_ref d < next_free h2" "scenario_ref d < next_free h2"
    using Cons.prems(1,2) f1(3) f2(1) by simp_all
  have acc2: "list_all (row_accepted ip infer (length (lists h2 (scenario_ref d)))) rest"
    using Cons.prems(3) dl by simp
  from Cons.IH[OF p2 acc2, of "acc @ [c]"]
  obtain envs h' where
    loop: "custom_envs_loop d rest ip infer (acc @ [c]) h2 = (Inr ((acc @ [c]) @ envs), h')"
    and len: "length envs = length rest"
    and each: "\<forall>i<length rest.
         contents_of h' (envs ! i) =
         contents_of (snd (set_custom_params (fst (deepcopy d h2)) (rest ! i) ip infer
                              (snd (deepcopy d h2))))
           (fst (deepcopy d h2))"
    by auto
  have whole: "custom_envs_loop d (row # rest) ip infer acc h = (Inr (acc @ (c # envs)), h')"
    using dc sp r2 loop by simp
  note fr = custom_envs_loop_frame[OF loop]
  have c_lt: "patient_ref c < next_free h2" "scenario_ref c < next_free h2"
    using f1(1,2,3) f2(1) by simp_all
  have first: "contents_of h' c = contents_of h2 c"
    using fr c_lt by (simp add: contents_of_def)
  have later: "contents_of h' (envs ! i) =
         contents_of (snd (set_custom_params c (rest ! i) ip infer h1)) c"
    if i: "i < length rest" for i
  proof -
    obtain c2 g where dc2: "deepcopy d h2 = (c2, g)" by (cases "deepcopy d h2")
    note g1 = deepcopy_facts[OF dc2]
    have a: "lists g (scenario_ref c2) = lists h1 (scenario_ref c)"
      using g1 f1 dl by simp
    have b: "series g (patient_ref c2) = series h1 (patient_ref c)"
      using g1 f1 ds by simp
    have "contents_of (snd (set_custom_params c2 (rest ! i) ip infer g)) c2
        = contents_of (snd (set_custom_params c (rest ! i) ip infer h1)) c"
      using set_custom_params_local(2,3)[OF a b, of "rest ! i" ip infer] g1 f1
      by (simp add: contents_of_def)
    then show ?thesis using each i dc2 by simp
  qed
  have "\<forall>i<length (row # rest).
         contents_of h' ((c # envs) ! i) =
         contents_of (snd (set_custom_params (fst (deepcopy d h)) ((row # rest) ! i) ip infer
                              (snd (deepcopy d h))))
           (fst (deepcopy d h))"
  proof (intro allI impI)
    fix i assume "i < length (row # rest)"
    then show "contents_of h' ((c # envs) ! i) =
         contents_of (snd (set_custom_params (fst (deepcopy d h)) ((row # rest) ! i) ip infer
                              (snd (deepcopy d h))))
           (fst (deepcopy d h))"
      using first later sp dc by (cases i) simp_all
  qed
  then show ?case using whole len by (intro exI[of _ "c # envs"] exI[of _ h']) simp
qed

lemma all_enumerate_snd:
  "(\<forall>(i, p)\<in>set (enumerate 0 names). P p) = (\<forall>n\<in>set names. P n)"
proof -
  have "set names = snd ` set (enumerate 0 names)"
    by (metis map_snd_enumerate set_map)
  then show ?thesis by force
qed

lemma meal_entries_empty_iff:
  "(meal_entries names = []) = (\<forall>n\<in>set names. \<not> str_in ''meal'' n)"
proof -
  have "(meal_entries names = []) = (\<forall>(i, p)\<in>set (enumerate 0 names). \<not> str_in ''meal'' p)"
    by (auto simp: meal_entries_def filter_empty_conv)
  then show ?thesis by (simp only: all_enumerate_snd)
qed

lemma non_meal_empty_iff:
  "(non_meal_indices_and_params names = []) = (\<forall>n\<in>set names. str_in ''meal'' n)"
proof -
  have "(non_meal_indices_and_params names = [])
      = (\<forall>(i, p)\<in>set (enumerate 0 names). str_in ''meal'' p)"
    by (auto simp: non_meal_indices_and_params_def filter_empty_conv)
  then show ?thesis by (simp only: all_enumerate_snd)
qed

lemma set_custom_params_no_meals:
  assumes "\<not> infer \<or> meal_entries (params_names ip) = []"
  shows "lists (snd (set_custom_params e theta ip infer h)) = lists h"
proof (cases "length theta < length (params_names ip)")
  case True
  then show ?thesis by (simp add: set_custom_params_short)
next
  case False
  then have "length (params_names ip) \<le> length theta" by simp
  then show ?thesis using assms
    by (auto simp: set_custom_params_long update_patient_parameters_def)
qed

lemma set_custom_params_only_meals:
  assumes "non_meal_indices_and_params (params_names ip) = []"
  shows "series (snd (set_custom_params e theta ip infer h)) = series h"
proof (cases "length theta < length (params_names ip)")
  case True
  then show ?thesis by (simp add: set_custom_params_short)
next
  case False
  then have "length (params_names ip) \<le> length theta" by simp
  then show ?thesis using assms
    by (auto simp: set_custom_params_long update_patient_parameters_def setattr_all_def)
qed

lemma meal_entries_demo [simp]:
  "meal_entries [''BW'', ''meal_1''] = [(1, ''meal_1'')]"
  "non_meal_indices_and_params [''BW'', ''meal_1''] = [(0, ''BW'')]"
  by (simp_all add: meal_entries_def non_meal_indices_and_params_def enumerate_eq_zip upt_rec)

lemma map_snd_filter_enumerate:
  "map snd (filter (\<lambda>(i, p). Q p) (enumerate n xs)) = filter Q xs"
  by (induction xs arbitrary: n) simp_all

lemma zip_other_params:
  "zip (map snd (non_meal_indices_and_params names)) (other_values_of names theta)
     = map (\<lambda>(j, p). (p, theta ! j)) (non_meal_indices_and_params names)"
  by (simp add: other_values_of_def zip_map_map zip_same_conv_map case_prod_beta)

lemma setattr_all_value:
  assumes "distinct names" and "i < length names" and "\<not> str_in ''meal'' (names ! i)"
  shows "setattr_all (map snd (non_meal_indices_and_params names)) (other_values_of names theta) r
           (names ! i) = Some (theta ! i)"
proof -
  let ?nm = "non_meal_indices_and_params names"
  let ?kvs = "map (\<lambda>(j, p). (p, theta ! j)) ?nm"
  have keys: "map fst ?kvs = filter (\<lambda>p. \<not> str_in ''meal'' p) names"
    using map_snd_filter_enumerate[of "\<lambda>p. \<not> str_in ''meal'' p" 0 names]
    by (simp add: non_meal_indices_and_params_def case_prod_beta comp_def)
  have d: "distinct (map fst (rev ?kvs))"
    using assms(1) unfolding rev_map[symmetric] distinct_rev keys by simp
  have "(i, names ! i) \<in> set ?nm"
    using assms(2,3) by (simp add: non_meal_indices_and_params_def in_set_enumerate_eq)
  then have "(names ! i, theta ! i) \<in> set (rev ?kvs)" by force
  with d have "map_of (rev ?kvs) (names ! i) = Some (theta ! i)" by simp
  then show ?thesis
    by (simp add: setattr_all_eq zip_other_params)
qed

lemma set_custom_params_sets_attribute:
  assumes "row_accepted ip infer (length (lists h (scenario_ref e))) theta"
    and "distinct (params_names ip)" and "i < length (params_names ip)"
    and "\<not> str_in ''meal'' (params_names ip ! i)"
  shows "series (snd (set_custom_params e theta ip infer h)) (patient_ref e) (params_names ip ! i)
           = Some (theta ! i)"
proof -
  have l: "length (params_names ip) \<le> length theta"
    using assms(1) by (simp add: row_accepted_def)
  show ?thesis
    using assms(1) setattr_all_value[OF assms(2,3,4)]
    by (auto simp: set_custom_params_long[OF l] row_accepted_def update_patient_parameters_def)
qed

lemma run_glucose_simulator_build_error:
  assumes "create_simulation_envs_with_custom_params x theta s ip hours infer h = (Inl err, h1)"
  shows "run_glucose_simulator x theta s ip hours dev infer logger h =
     ((Inl err, if logger then [Logged ''Running the glucose simulator on theta of shape, %s'']
                else []), h1)"
  using assms by (simp add: run_glucose_simulator_def)

lemma demo_build_fails:
  "fst (create_simulation_envs_with_custom_params demo_externals [[]] demo_settings
          \<lparr>params_names = [''BW'']\<rparr> 24 False settings_heap) = Inl IndexError"
  by (simp add: create_simulation_envs_with_custom_params_def load_default_simulation_env_def
      demo_externals_def demo_settings_def deepcopy_def set_custom_params_short Let_def)

lemma load_default_facts:
  assumes "load_default_simulation_env x s hours h = (Inr d, h0)"
  shows "patient_ref d = next_free h" and "scenario_ref d = scenario_list s"
    and "next_free h0 = Suc (next_free h)" and "lists h0 = lists h"
    and "patient_withName x (patient_name s) = Some (series h0 (patient_ref d))"
    and "\<forall>a. a \<noteq> next_free h \<longrightarrow> series h0 a = series h a"
    and "start_time d = today_midnight x" and "sensor d = (sensor_name s, 1)"
    and "pump d = pump_name s" and "sim_time d = hours" and "animate d = False"
    and "sensor_withName x (sensor_name s)" and "pump_withName x (pump_name s)"
  using assms
  by (auto simp: load_default_simulation_env_def Let_def split: option.splits if_splits)

lemma load_default_succeeds:
  assumes "patient_withName x (patient_name s) = Some ps"
    and "sensor_withName x (sensor_name s)" and "pump_withName x (pump_name s)"
  shows "\<exists>d h0. load_default_simulation_env x s hours h = (Inr d, h0) \<and>
     contents_of h0 d = (ps, lists h (scenario_list s), today_midnight x, (sensor_name s, 1),
       pump_name s, hours, False)"
  using assms by (simp add: load_default_simulation_env_def Let_def contents_of_def)

lemma create_frame:
  assumes "load_default_simulation_env x s hours h = (Inr d, h0)"
    and "create_simulation_envs_with_custom_params x theta s ip hours infer h = (r, h')"
  shows "next_free h0 \<le> next_free h'"
    and "\<forall>a<next_free h0. lists h' a = lists h0 a \<and> series h' a = series h0 a"
proof -
  have "custom_envs_loop d theta ip infer [] h0 = (r, h')"
    using assms by (simp add: create_simulation_envs_with_custom_params_def)
  from custom_envs_loop_frame[OF this]
  show "next_free h0 \<le> next_free h'"
    and "\<forall>a<next_free h0. lists h' a = lists h0 a \<and> series h' a = series h0 a"
    by simp_all
qed

lemma demo_load:
  "load_default_simulation_env demo_externals demo_settings 24 settings_heap
     = (Inr demo_env, demo_heap)"
  by (simp add: load_default_simulation_env_def demo_externals_def demo_settings_def
      settings_heap_def demo_env_def demo_heap_def Let_def)

lemma those_length: "those xs = Some ys \<Longrightarrow> length ys = length xs"
  by (induction xs arbitrary: ys) (auto split: option.splits)

lemma np_stack_uniform:
  assumes "rs \<noteq> []" and "list_all (\<lambda>r. length r = n) rs"
  shows "np_stack rs = Inr rs"
  using assms by (cases rs) (auto simp: np_stack_def list_all_iff)

lemma simulate_batch_returned:
  assumes "fst (simulate_batch x h sims dev logger) = Inr t"
  shows "tensor_device t = dev \<and> tensor_dtype t = Float32"
  using assms
  by (auto simp: simulate_batch_def pathos_def pool_map_def split: option.splits sum.splits)

lemma simulate_batch_uniform:
  assumes "sims \<noteq> []" and "those (map (simulate_glucose_dynamics x h) sims) = Some rs"
    and "list_all (\<lambda>r. length r = n) rs"
  shows "fst (simulate_batch x h sims dev logger)
     = Inr \<lparr>entries = map (map (to_float32 x)) rs, tensor_dtype = Float32, tensor_device = dev\<rparr>"
proof -
  have "rs \<noteq> []" using those_length[OF assms(2)] assms(1) by auto
  from np_stack_uniform[OF this assms(3)] assms(2) show ?thesis
    by (simp add: simulate_batch_def pathos_def pool_map_def)
qed



section \<open>The claims\<close>

text \<open>
  C1. With the names \<open>["BW", "meal_1"]\<close>, an environment whose scenario is
  \<open>[("breakfast", 40)]\<close> and the row \<open>[70.0, 60.0]\<close>, the patcher called with
  \<open>infer_meal_params=True\<close> returns normally and leaves the patient's record with
  \<open>BW = 70.0\<close> and the scenario equal to \<open>[("breakfast", 60.0)]\<close>.
\<close>

theorem C1_concrete_patch:
  assumes "lists h (scenario_ref e) = [(''breakfast'', 40)]"
  shows "fst (set_custom_params e [70, 60] \<lparr>params_names = [''BW'', ''meal_1'']\<rparr> True h) = Inr ()
    \<and> series (snd (set_custom_params e [70, 60] \<lparr>params_names = [''BW'', ''meal_1'']\<rparr> True h))
         (patient_ref e) ''BW'' = Some 70
    \<and> lists (snd (set_custom_params e [70, 60] \<lparr>params_names = [''BW'', ''meal_1'']\<rparr> True h))
         (scenario_ref e) = [(''breakfast'', 60)]"
  using assms
  by (simp add: set_custom_params_long update_patient_parameters_def setattr_all_def
      meal_values_of_def other_values_of_def overwritten_def)

theorem C1_concrete_patch_witness:
  "lists demo_heap (scenario_ref demo_env) = [(''breakfast'', 40)]
   \<and> fst (set_custom_params demo_env [70, 60] \<lparr>params_names = [''BW'', ''meal_1'']\<rparr> True
          demo_heap) = Inr ()
   \<and> series (snd (set_custom_params demo_env [70, 60] \<lparr>params_names = [''BW'', ''meal_1'']\<rparr>
          True demo_heap)) (patient_ref demo_env) ''BW'' = Some 70
   \<and> lists (snd (set_custom_params demo_env [70, 60] \<lparr>params_names = [''BW'', ''meal_1'']\<rparr>
          True demo_heap)) (scenario_ref demo_env) = [(''breakfast'', 60)]"
proof -
  have a: "lists demo_heap (scenario_ref demo_env) = [(''breakfast'', 40)]"
    by (simp add: demo_heap_def demo_env_def)
  from C1_concrete_patch[OF a] a show ?thesis by simp
qed

text \<open>
  Against C2 as stated: a matrix of the right shape can still fail to give a batch. One
  meal name, a baseline scenario of two entries and meal patching on end in IndexError
  for the first row.
\<close>

theorem C2_counterexample:
  "fst (create_simulation_envs_with_custom_params demo_externals [[60]] demo_settings
          \<lparr>params_names = [''meal_1'']\<rparr> 24 True two_meal_settings_heap) = Inl IndexError"
  by (simp add: create_simulation_envs_with_custom_params_def load_default_simulation_env_def
      demo_externals_def demo_settings_def two_meal_settings_heap_def deepcopy_def Let_def
      set_custom_params_long meal_entries_def enumerate_eq_zip)

text \<open>
  C2 (amended). Let the default environment load (the identifiers of the settings
  resolve, and their scenario list is an object of the store), let every row of the
  matrix have the length of \<open>params_names\<close>, and let meal patching be off, or no name
  contain "meal", or the baseline scenario have no more entries than there are meal
  names. Then
  \<open>create_simulation_envs_with_custom_params\<close> returns a list of exactly as many
  environments as the matrix has rows, and for every index \<open>i\<close> the \<open>i\<close>-th
  environment holds what a fresh copy of the default environment holds after the patcher
  has been applied to it, without error, with row \<open>i\<close>.
\<close>

theorem C2_batch_in_row_order:
  assumes "load_default_simulation_env x s hours h = (Inr d, h0)"
    and "scenario_list s < next_free h"
    and "\<forall>row\<in>set theta. length row = length (params_names ip)"
    and "\<not> infer_meal_params \<or> meal_entries (params_names ip) = []
         \<or> length (lists h (scenario_list s)) \<le> length (meal_entries (params_names ip))"
  shows "\<exists>envs h'.
      create_simulation_envs_with_custom_params x theta s ip hours infer_meal_params h
        = (Inr envs, h')
      \<and> length envs = length theta
      \<and> (\<forall>i<length theta.
           fst (set_custom_params (fst (deepcopy d h0)) (theta ! i) ip infer_meal_params
                  (snd (deepcopy d h0))) = Inr ()
           \<and> contents_of h' (envs ! i) =
             contents_of (snd (set_custom_params (fst (deepcopy d h0)) (theta ! i) ip
                                 infer_meal_params (snd (deepcopy d h0))))
               (fst (deepcopy d h0)))"
proof -
  note f = load_default_facts[OF assms(1)]
  have p: "patient_ref d < next_free h0" and q: "scenario_ref d < next_free h0"
    using f(1,2,3) assms(2) by simp_all
  have sc: "lists h0 (scenario_ref d) = lists h (scenario_list s)"
    using f(2,4) by simp
  have acc: "list_all (row_accepted ip infer_meal_params (length (lists h0 (scenario_ref d)))) theta"
    using assms(3,4) sc by (auto simp: list_all_iff row_accepted_def)
  from custom_envs_loop_correct[OF p q acc, of "[]"]
  obtain envs h' where loop: "custom_envs_loop d theta ip infer_meal_params [] h0 = (Inr envs, h')"
    and len: "length envs = length theta"
    and each: "\<forall>i<length theta.
         contents_of h' (envs ! i) =
         contents_of (snd (set_custom_params (fst (deepcopy d h0)) (theta ! i) ip
                              infer_meal_params (snd (deepcopy d h0))))
           (fst (deepcopy d h0))"
    by auto
  have whole: "create_simulation_envs_with_custom_params x theta s ip hours infer_meal_params h
        = (Inr envs, h')"
    using assms(1) loop by (simp add: create_simulation_envs_with_custom_params_def)
  have ok: "fst (set_custom_params (fst (deepcopy d h0)) (theta ! i) ip infer_meal_params
                  (snd (deepcopy d h0))) = Inr ()" if "i < length theta" for i
  proof -
    have "lists (snd (deepcopy d h0)) (scenario_ref (fst (deepcopy d h0)))
        = lists h0 (scenario_ref d)"
      by (simp add: deepcopy_def Let_def)
    moreover have "row_accepted ip infer_meal_params (length (lists h0 (scenario_ref d))) (theta ! i)"
      using acc that by (simp add: list_all_length)
    ultimately show ?thesis
      by (intro set_custom_params_accepted) simp
  qed
  from whole len each ok show ?thesis by blast
qed

theorem C2_batch_in_row_order_witness:
  "length (projr (fst (create_simulation_envs_with_custom_params demo_externals
       [[70, 60], [71, 61]] demo_settings \<lparr>params_names = [''BW'', ''meal_1'']\<rparr> 24 True
       settings_heap))) = 2
   \<and> contents_of
        (snd (create_simulation_envs_with_custom_params demo_externals
           [[70, 60], [71, 61]] demo_settings \<lparr>params_names = [''BW'', ''meal_1'']\<rparr> 24 True
           settings_heap))
        (projr (fst (create_simulation_envs_with_custom_params demo_externals
           [[70, 60], [71, 61]] demo_settings \<lparr>params_names = [''BW'', ''meal_1'']\<rparr> 24 True
           settings_heap)) ! 1)
      = contents_of
          (snd (set_custom_params (fst (deepcopy demo_env demo_heap)) [71, 61]
                  \<lparr>params_names = [''BW'', ''meal_1'']\<rparr> True (snd (deepcopy demo_env demo_heap))))
          (fst (deepcopy demo_env demo_heap))"
proof -
  let ?ip = "\<lparr>params_names = [''BW'', ''meal_1'']\<rparr>"
  let ?theta = "[[70, 60], [71, 61 :: real]]"
  have a: "scenario_list demo_settings < next_free settings_heap"
    by (simp add: demo_settings_def settings_heap_def)
  have b: "\<forall>row\<in>set ?theta. length row = length (params_names ?ip)"
    by simp
  have c: "\<not> True \<or> meal_entries (params_names ?ip) = []
         \<or> length (lists settings_heap (scenario_list demo_settings))
            \<le> length (meal_entries (params_names ?ip))"
    by (simp add: demo_settings_def settings_heap_def)
  from C2_batch_in_row_order[OF demo_load a b c]
  obtain envs h' where
    run: "create_simulation_envs_with_custom_params demo_externals ?theta demo_settings ?ip 24
            True settings_heap = (Inr envs, h')"
    and len: "length envs = length ?theta"
    and each: "\<forall>i<length ?theta.
           fst (set_custom_params (fst (deepcopy demo_env demo_heap)) (?theta ! i) ?ip True
                  (snd (deepcopy demo_env demo_heap))) = Inr ()
           \<and> contents_of h' (envs ! i) =
             contents_of (snd (set_custom_params (fst (deepcopy demo_env demo_heap))
                                 (?theta ! i) ?ip True (snd (deepcopy demo_env demo_heap))))
               (fst (deepcopy demo_env demo_heap))"
    by blast
  from each have "contents_of h' (envs ! 1) =
             contents_of (snd (set_custom_params (fst (deepcopy demo_env demo_heap))
                                 (?theta ! 1) ?ip True (snd (deepcopy demo_env demo_heap))))
               (fst (deepcopy demo_env demo_heap))"
    by simp
  then show ?thesis using len by (simp add: run)
qed

text \<open>
  Against C3 as stated: a name that is no attribute of the patient's record raises
  nothing. The patcher returns normally and the name is bound afterwards.
\<close>

theorem C3_counterexample:
  "series demo_heap (patient_ref demo_env) ''Vmx_typo'' = None
   \<and> fst (set_custom_params demo_env [3] \<lparr>params_names = [''Vmx_typo'']\<rparr> False demo_heap) = Inr ()
   \<and> series (snd (set_custom_params demo_env [3] \<lparr>params_names = [''Vmx_typo'']\<rparr> False demo_heap))
       (patient_ref demo_env) ''Vmx_typo'' = Some 3"
  by (simp add: set_custom_params_long non_meal_indices_and_params_def meal_entries_def
      enumerate_eq_zip other_values_of_def update_patient_parameters_def setattr_all_def
      demo_heap_def demo_env_def)

text \<open>
  C3 (amended). The patcher does not check parameter names. For a row at least as long as
  the name list, with meal patching off, or no meal name, or at least as many meal names
  as scenario entries, the patcher returns normally; every non-meal name of a
  duplicate-free name list, an attribute of the patient's record before or not, is bound
  afterwards to the row's value at its index. An error that building the batch does raise
  is returned by the orchestrator with no pool opened and no environment simulated.
\<close>

theorem C3_unknown_name_is_bound:
  "(length (params_names ip) \<le> length theta
      \<and> (\<not> infer_meal_params \<or> meal_entries (params_names ip) = []
           \<or> length (lists h (scenario_ref e)) \<le> length (meal_entries (params_names ip)))
      \<and> distinct (params_names ip) \<and> i < length (params_names ip)
      \<and> \<not> str_in ''meal'' (params_names ip ! i)
    \<longrightarrow> fst (set_custom_params e theta ip infer_meal_params h) = Inr ()
      \<and> series (snd (set_custom_params e theta ip infer_meal_params h)) (patient_ref e)
           (params_names ip ! i) = Some (theta ! i))
   \<and> (create_simulation_envs_with_custom_params x matrix s ip hours infer_meal_params h
         = (Inl err, h1)
    \<longrightarrow> run_glucose_simulator x matrix s ip hours dev infer_meal_params logger h
         = ((Inl err, if logger
                      then [Logged ''Running the glucose simulator on theta of shape, %s'']
                      else []), h1))"
proof (intro conjI impI)
  assume a: "length (params_names ip) \<le> length theta
      \<and> (\<not> infer_meal_params \<or> meal_entries (params_names ip) = []
           \<or> length (lists h (scenario_ref e)) \<le> length (meal_entries (params_names ip)))
      \<and> distinct (params_names ip) \<and> i < length (params_names ip)
      \<and> \<not> str_in ''meal'' (params_names ip ! i)"
  then have acc: "row_accepted ip infer_meal_params (length (lists h (scenario_ref e))) theta"
    by (simp add: row_accepted_def)
  show "fst (set_custom_params e theta ip infer_meal_params h) = Inr ()"
    by (rule set_custom_params_accepted[OF acc])
  show "series (snd (set_custom_params e theta ip infer_meal_params h)) (patient_ref e)
           (params_names ip ! i) = Some (theta ! i)"
    using set_custom_params_sets_attribute[OF acc] a by simp
next
  assume "create_simulation_envs_with_custom_params x matrix s ip hours infer_meal_params h
         = (Inl err, h1)"
  then show "run_glucose_simulator x matrix s ip hours dev infer_meal_params logger h
         = ((Inl err, if logger
                      then [Logged ''Running the glucose simulator on theta of shape, %s'']
                      else []), h1)"
    by (rule run_glucose_simulator_build_error)
qed

theorem C3_unknown_name_is_bound_witness:
  "fst (set_custom_params demo_env [3] \<lparr>params_names = [''Vmx_typo'']\<rparr> False demo_heap) = Inr ()
   \<and> series (snd (set_custom_params demo_env [3] \<lparr>params_names = [''Vmx_typo'']\<rparr> False demo_heap))
       (patient_ref demo_env) ''Vmx_typo'' = Some 3
   \<and> run_glucose_simulator demo_externals [[]] demo_settings \<lparr>params_names = [''BW'']\<rparr> 24 Cpu
       False False settings_heap
     = ((Inl IndexError, []),
        snd (create_simulation_envs_with_custom_params demo_externals [[]] demo_settings
          \<lparr>params_names = [''BW'']\<rparr> 24 False settings_heap))"
proof -
  note th = C3_unknown_name_is_bound[where ip = "\<lparr>params_names = [''Vmx_typo'']\<rparr>"
      and theta = "[3]" and infer_meal_params = False and h = demo_heap and e = demo_env
      and i = 0]
  have b: "create_simulation_envs_with_custom_params demo_externals [[]] demo_settings
          \<lparr>params_names = [''BW'']\<rparr> 24 False settings_heap
      = (Inl IndexError, snd (create_simulation_envs_with_custom_params demo_externals [[]]
          demo_settings \<lparr>params_names = [''BW'']\<rparr> 24 False settings_heap))"
    using demo_build_fails by (metis prod.collapse)
  from th[THEN conjunct1]
  have 1: "fst (set_custom_params demo_env [3] \<lparr>params_names = [''Vmx_typo'']\<rparr> False demo_heap) = Inr ()
   \<and> series (snd (set_custom_params demo_env [3] \<lparr>params_names = [''Vmx_typo'']\<rparr> False demo_heap))
       (patient_ref demo_env) ''Vmx_typo'' = Some 3"
    by simp
  from C3_unknown_name_is_bound[where ip = "\<lparr>params_names = [''BW'']\<rparr>"
      and infer_meal_params = False and h = settings_heap and x = demo_externals
      and matrix = "[[]]" and s = demo_settings and hours = 24 and dev = Cpu
      and logger = False, THEN conjunct2, rule_format, OF b]
  have 2: "run_glucose_simulator demo_externals [[]] demo_settings \<lparr>params_names = [''BW'']\<rparr> 24 Cpu
       False False settings_heap
     = ((Inl IndexError, []),
        snd (create_simulation_envs_with_custom_params demo_externals [[]] demo_settings
          \<lparr>params_names = [''BW'']\<rparr> 24 False settings_heap))"
    by simp
  from 1 2 show ?thesis by simp
qed

text \<open>
  Against C4 as stated: length mismatches the patcher lets through or notices late. A row
  longer than the name list raises nothing; one meal value for a scenario of two entries
  raises IndexError only after the first entry has been overwritten.
\<close>

theorem C4_counterexample:
  "fst (set_custom_params demo_env [70, 1] \<lparr>params_names = [''BW'']\<rparr> False demo_heap) = Inr ()
   \<and> fst (set_custom_params demo_env [60] \<lparr>params_names = [''meal_1'']\<rparr> True two_meal_heap)
       = Inl IndexError
   \<and> lists two_meal_heap (scenario_ref demo_env) = [(''breakfast'', 40), (''lunch'', 50)]
   \<and> lists (snd (set_custom_params demo_env [60] \<lparr>params_names = [''meal_1'']\<rparr> True two_meal_heap))
       (scenario_ref demo_env) = [(''breakfast'', 60), (''lunch'', 50)]"
  by (simp add: set_custom_params_long non_meal_indices_and_params_def meal_entries_def
      enumerate_eq_zip meal_values_of_def overwritten_def two_meal_heap_def demo_heap_def
      demo_env_def)

text \<open>
  C4 (amended). The patcher has no length check and no error of its own; what it raises is
  Python's IndexError on a read out of range. A row shorter than the name list raises
  IndexError before anything is changed: the store is the one before the call. With a row
  at least as long as the name list, meal patching on, at least one meal name and fewer
  meal names than scenario entries, IndexError is raised and every patient record is as
  before the call. In every other case (a longer row, meal patching off, no meal name, or
  at least as many meal names as scenario entries) the call returns normally.
\<close>

theorem C4_length_mismatch:
  "(length theta < length (params_names ip)
    \<longrightarrow> set_custom_params e theta ip infer_meal_params h = (Inl IndexError, h))
   \<and> (length (params_names ip) \<le> length theta \<and> infer_meal_params
       \<and> meal_entries (params_names ip) \<noteq> []
       \<and> length (meal_entries (params_names ip)) < length (lists h (scenario_ref e))
    \<longrightarrow> fst (set_custom_params e theta ip infer_meal_params h) = Inl IndexError
       \<and> series (snd (set_custom_params e theta ip infer_meal_params h)) = series h)
   \<and> (length (params_names ip) \<le> length theta
       \<and> (\<not> infer_meal_params \<or> meal_entries (params_names ip) = []
          \<or> length (lists h (scenario_ref e)) \<le> length (meal_entries (params_names ip)))
    \<longrightarrow> fst (set_custom_params e theta ip infer_meal_params h) = Inr ())"
proof (intro conjI impI)
  assume "length theta < length (params_names ip)"
  then show "set_custom_params e theta ip infer_meal_params h = (Inl IndexError, h)"
    by (rule set_custom_params_short)
next
  assume a: "length (params_names ip) \<le> length theta \<and> infer_meal_params
       \<and> meal_entries (params_names ip) \<noteq> []
       \<and> length (meal_entries (params_names ip)) < length (lists h (scenario_ref e))"
  then have l: "length (params_names ip) \<le> length theta" by simp
  show "fst (set_custom_params e theta ip infer_meal_params h) = Inl IndexError"
    using a by (simp add: set_custom_params_long[OF l])
  show "series (snd (set_custom_params e theta ip infer_meal_params h)) = series h"
    using a by (simp add: set_custom_params_long[OF l])
next
  assume a: "length (params_names ip) \<le> length theta
       \<and> (\<not> infer_meal_params \<or> meal_entries (params_names ip) = []
          \<or> length (lists h (scenario_ref e)) \<le> length (meal_entries (params_names ip)))"
  then have "row_accepted ip infer_meal_params (length (lists h (scenario_ref e))) theta"
    by (simp add: row_accepted_def)
  then show "fst (set_custom_params e theta ip infer_meal_params h) = Inr ()"
    by (rule set_custom_params_accepted)
qed

theorem C4_length_mismatch_witness:
  "set_custom_params demo_env [] \<lparr>params_names = [''BW'']\<rparr> False demo_heap
     = (Inl IndexError, demo_heap)
   \<and> fst (set_custom_params demo_env [60] \<lparr>params_names = [''meal_1'']\<rparr> True two_meal_heap)
       = Inl IndexError
   \<and> series (snd (set_custom_params demo_env [60] \<lparr>params_names = [''meal_1'']\<rparr> True two_meal_heap))
       = series two_meal_heap
   \<and> fst (set_custom_params demo_env [70, 60] \<lparr>params_names = [''BW'', ''meal_1'']\<rparr> True demo_heap)
       = Inr ()"
proof -
  have m: "meal_entries [''meal_1''] = [(0, ''meal_1'')]"
    by (simp add: meal_entries_def enumerate_eq_zip)
  from C4_length_mismatch[where theta = "[]" and ip = "\<lparr>params_names = [''BW'']\<rparr>"
      and e = demo_env and infer_meal_params = False and h = demo_heap,
      THEN conjunct1]
  have 1: "set_custom_params demo_env [] \<lparr>params_names = [''BW'']\<rparr> False demo_heap
     = (Inl IndexError, demo_heap)"
    by simp
  from C4_length_mismatch[where theta = "[60]" and ip = "\<lparr>params_names = [''meal_1'']\<rparr>"
      and e = demo_env and infer_meal_params = True and h = two_meal_heap,
      THEN conjunct2, THEN conjunct1]
  have 2: "fst (set_custom_params demo_env [60] \<lparr>params_names = [''meal_1'']\<rparr> True two_meal_heap)
       = Inl IndexError
     \<and> series (snd (set_custom_params demo_env [60] \<lparr>params_names = [''meal_1'']\<rparr> True two_meal_heap))
       = series two_meal_heap"
    by (simp add: m two_meal_heap_def demo_env_def)
  from C4_length_mismatch[where theta = "[70, 60]"
      and ip = "\<lparr>params_names = [''BW'', ''meal_1'']\<rparr>" and e = demo_env
      and infer_meal_params = True and h = demo_heap, THEN conjunct2, THEN conjunct2]
  have 3: "fst (set_custom_params demo_env [70, 60] \<lparr>params_names = [''BW'', ''meal_1'']\<rparr> True demo_heap)
       = Inr ()"
    by (simp add: demo_heap_def demo_env_def)
  from 1 2 3 show ?thesis by simp
qed

text \<open>
  Against C5 as stated: on an empty list the runner opens the pool, maps over nothing,
  and fails in \<open>np.stack\<close>.
\<close>

theorem C5_counterexample:
  "simulate_batch demo_externals demo_heap [] Cpu False
     = (Inl ValueError, [PoolOpened, PoolClosed])"
  by (simp add: simulate_batch_def pathos_def pool_map_def np_stack_def)

text \<open>
  C5 (amended). \<open>simulate_batch\<close> applied to an empty list of environments opens the
  worker pool, maps over the empty list, closes the pool and then raises ValueError from
  \<open>np.stack\<close>: no result batch is returned. Applied to one environment whose run
  completes, it returns, through the worker pool as well, a result batch of one row, the
  readings of that run.
\<close>

theorem C5_batch_sizes_zero_and_one:
  "simulate_batch x h [] dev logger
     = (Inl ValueError,
        (if logger then [Logged ''Using pathos for parallel processing''] else [])
          @ [PoolOpened, PoolClosed])
   \<and> (cgm_readings x (contents_of h e) = Some ys \<longrightarrow>
        simulate_batch x h [e] dev logger
          = (Inr \<lparr>entries = [map (to_float32 x) ys], tensor_dtype = Float32,
                  tensor_device = dev\<rparr>,
             (if logger then [Logged ''Using pathos for parallel processing''] else [])
               @ [PoolOpened, Simulated e, PoolClosed]
               @ (if logger then [Logged ''Simulation took %s seconds''] else [])))"
  by (simp add: simulate_batch_def pathos_def pool_map_def np_stack_def
      simulate_glucose_dynamics_def)

theorem C5_batch_sizes_zero_and_one_witness:
  "simulate_batch demo_externals demo_heap [] Cpu True
     = (Inl ValueError,
        [Logged ''Using pathos for parallel processing'', PoolOpened, PoolClosed])
   \<and> simulate_batch demo_externals demo_heap [demo_env] Cpu False
     = (Inr \<lparr>entries = [[40]], tensor_dtype = Float32, tensor_device = Cpu\<rparr>,
        [PoolOpened, Simulated demo_env, PoolClosed])"
proof -
  have r: "cgm_readings demo_externals (contents_of demo_heap demo_env) = Some [40]"
    by (simp add: demo_externals_def contents_of_def demo_heap_def demo_env_def)
  from C5_batch_sizes_zero_and_one[where x = demo_externals and h = demo_heap and dev = Cpu
      and logger = True, THEN conjunct1]
  have 1: "simulate_batch demo_externals demo_heap [] Cpu True
     = (Inl ValueError,
        [Logged ''Using pathos for parallel processing'', PoolOpened, PoolClosed])"
    by simp
  from C5_batch_sizes_zero_and_one[where x = demo_externals and h = demo_heap and dev = Cpu
      and logger = False and e = demo_env and ys = "[40]", THEN conjunct2, rule_format, OF r]
  have 2: "simulate_batch demo_externals demo_heap [demo_env] Cpu False
     = (Inr \<lparr>entries = [[40]], tensor_dtype = Float32, tensor_device = Cpu\<rparr>,
        [PoolOpened, Simulated demo_env, PoolClosed])"
    by (simp add: demo_externals_def)
  from 1 2 show ?thesis by (rule conjI)
qed

text \<open>
  C6. Building a batch never changes the default environment. Let the scenario list of
  the settings be an object of the store. Whatever the matrix and whatever the outcome,
  after \<open>create_simulation_envs_with_custom_params\<close> the default environment that \<open>load_default_simulation_env\<close> built holds what it held when it was
  built, and the scenario list of the settings is as before the call. Hence a second
  build from the same settings, with the same collaborators, starts from a default
  environment with the same contents, and every copy taken of the default environment
  holds these baseline contents before it is patched.
\<close>

theorem C6_default_untouched:
  assumes "scenario_list s < next_free h"
    and "load_default_simulation_env x s hours h = (Inr d, h0)"
    and "create_simulation_envs_with_custom_params x theta s ip hours infer_meal_params h
           = (r, h')"
  shows "contents_of h' d = contents_of h0 d
    \<and> lists h' (scenario_list s) = lists h (scenario_list s)
    \<and> (\<exists>d2 h2. load_default_simulation_env x s hours h' = (Inr d2, h2)
          \<and> contents_of h2 d2 = contents_of h0 d)
    \<and> contents_of (snd (deepcopy d h')) (fst (deepcopy d h')) = contents_of h0 d"
proof -
  note f = load_default_facts[OF assms(2)]
  note fr = create_frame[OF assms(2,3)]
  have p: "patient_ref d < next_free h0" and q: "scenario_ref d < next_free h0"
    using f(1,2,3) assms(1) by simp_all
  have 1: "contents_of h' d = contents_of h0 d"
    using fr(2) p q by (simp add: contents_of_def)
  have 2: "lists h' (scenario_list s) = lists h (scenario_list s)"
    using fr(2) q f(2,4) by simp
  from load_default_succeeds[OF f(5) f(12) f(13), of hours h']
  obtain d2 h2 where l2: "load_default_simulation_env x s hours h' = (Inr d2, h2)"
    and c2: "contents_of h2 d2 = (series h0 (patient_ref d), lists h' (scenario_list s),
       today_midnight x, (sensor_name s, 1), pump_name s, hours, False)"
    by blast
  have "contents_of h2 d2 = contents_of h0 d"
    using c2 2 f by (simp add: contents_of_def)
  with l2 have 3: "\<exists>d2 h2. load_default_simulation_env x s hours h' = (Inr d2, h2)
          \<and> contents_of h2 d2 = contents_of h0 d" by blast
  have 4: "contents_of (snd (deepcopy d h')) (fst (deepcopy d h')) = contents_of h0 d"
    using deepcopy_contents[of d h' "fst (deepcopy d h')" "snd (deepcopy d h')"] 1 by simp
  from 1 2 3 4 show ?thesis by blast
qed

theorem C6_default_untouched_witness:
  "contents_of
     (snd (create_simulation_envs_with_custom_params demo_externals [[70, 60], [71, 61]]
        demo_settings \<lparr>params_names = [''BW'', ''meal_1'']\<rparr> 24 True settings_heap))
     demo_env
     = contents_of demo_heap demo_env
   \<and> lists
       (snd (create_simulation_envs_with_custom_params demo_externals [[70, 60], [71, 61]]
          demo_settings \<lparr>params_names = [''BW'', ''meal_1'']\<rparr> 24 True settings_heap))
       (scenario_list demo_settings)
     = lists settings_heap (scenario_list demo_settings)"
proof -
  let ?ip = "\<lparr>params_names = [''BW'', ''meal_1'']\<rparr>"
  let ?theta = "[[70, 60], [71, 61 :: real]]"
  let ?run = "create_simulation_envs_with_custom_params demo_externals ?theta demo_settings
      ?ip 24 True settings_heap"
  have a: "scenario_list demo_settings < next_free settings_heap"
    by (simp add: demo_settings_def settings_heap_def)
  have c: "?run = (fst ?run, snd ?run)" by simp
  from C6_default_untouched[OF a demo_load c] show ?thesis by blast
qed

text \<open>
  C7. When \<open>infer_meal_params\<close> is false, or no parameter name contains "meal", a call
  of the patcher leaves every scenario list as it was, whatever the row and whatever the
  outcome; and when every parameter name contains "meal", it leaves every patient record
  as it was.
\<close>

theorem C7_patcher_frame:
  "(\<not> infer_meal_params \<or> (\<forall>n\<in>set (params_names ip). \<not> str_in ''meal'' n) \<longrightarrow>
      lists (snd (set_custom_params e theta ip infer_meal_params h)) = lists h)
   \<and> ((\<forall>n\<in>set (params_names ip). str_in ''meal'' n) \<longrightarrow>
      series (snd (set_custom_params e theta ip infer_meal_params h)) = series h)"
  using set_custom_params_no_meals[of infer_meal_params ip e theta h]
    set_custom_params_only_meals[of ip e theta infer_meal_params h]
  by (simp add: meal_entries_empty_iff non_meal_empty_iff)

theorem C7_patcher_frame_witness:
  "lists (snd (set_custom_params demo_env [70, 60] \<lparr>params_names = [''BW'', ''meal_1'']\<rparr> False
       demo_heap)) = lists demo_heap
   \<and> lists (snd (set_custom_params demo_env [70] \<lparr>params_names = [''BW'']\<rparr> True
       demo_heap)) = lists demo_heap
   \<and> series (snd (set_custom_params demo_env [60] \<lparr>params_names = [''meal_1'']\<rparr> True
       demo_heap)) = series demo_heap"
  using C7_patcher_frame[of False "\<lparr>params_names = [''BW'', ''meal_1'']\<rparr>" demo_env "[70, 60]" demo_heap]
    C7_patcher_frame[of True "\<lparr>params_names = [''BW'']\<rparr>" demo_env "[70]" demo_heap]
    C7_patcher_frame[of True "\<lparr>params_names = [''meal_1'']\<rparr>" demo_env "[60]" demo_heap]
  by simp



text \<open>
  Against C9 as stated: the runner takes a device and no numeric type. A caller who wants
  the readings as float64, the type of the stacked array, gets float32.
\<close>

theorem C9_counterexample:
  "fst (simulate_batch demo_externals demo_heap [demo_env] (Cuda 0) False)
     = Inr \<lparr>entries = [[40]], tensor_dtype = Float32, tensor_device = Cuda 0\<rparr>
   \<and> tensor_dtype (projr (fst (simulate_batch demo_externals demo_heap [demo_env] (Cuda 0) False)))
       \<noteq> Float64"
  by (simp add: simulate_batch_def pathos_def pool_map_def np_stack_def
      simulate_glucose_dynamics_def demo_externals_def contents_of_def demo_heap_def
      demo_env_def)

text \<open>
  C9 (amended). The last step of \<open>simulate_batch\<close> converts the stacked array to float32
  and moves it to the device argument: every tensor it returns is on that device and has
  numeric type float32, which the caller cannot choose. It does return one for every
  non-empty batch whose runs all complete with readings of one length, and the entries
  are the readings in the order of the list, rounded to float32.
\<close>

theorem C9_device_and_float32:
  "(fst (simulate_batch x h sims dev logger) = Inr t \<longrightarrow>
      tensor_device t = dev \<and> tensor_dtype t = Float32)
   \<and> (sims \<noteq> [] \<and> those (map (simulate_glucose_dynamics x h) sims) = Some rs
        \<and> list_all (\<lambda>r. length r = n) rs \<longrightarrow>
      fst (simulate_batch x h sims dev logger)
        = Inr \<lparr>entries = map (map (to_float32 x)) rs, tensor_dtype = Float32,
               tensor_device = dev\<rparr>)"
  using simulate_batch_returned[of x h sims dev logger t]
    simulate_batch_uniform[of sims x h rs n dev logger]
  by blast

theorem C9_device_and_float32_witness:
  "fst (simulate_batch demo_externals demo_heap [demo_env, demo_env] (Cuda 0) False)
     = Inr \<lparr>entries = [[40], [40]], tensor_dtype = Float32, tensor_device = Cuda 0\<rparr>
   \<and> tensor_device \<lparr>entries = [[40], [40]], tensor_dtype = Float32, tensor_device = Cuda 0\<rparr>
       = Cuda 0"
proof -
  have r: "[demo_env, demo_env] \<noteq> []
     \<and> those (map (simulate_glucose_dynamics demo_externals demo_heap) [demo_env, demo_env])
         = Some [[40], [40]]
     \<and> list_all (\<lambda>r. length r = 1) [[40], [40 :: real]]"
    by (simp add: simulate_glucose_dynamics_def demo_externals_def contents_of_def
        demo_heap_def demo_env_def)
  from C9_device_and_float32[where x = demo_externals and h = demo_heap
      and sims = "[demo_env, demo_env]" and dev = "Cuda 0" and logger = False
      and rs = "[[40], [40]]" and n = 1, THEN conjunct2, rule_format, OF r]
  have 1: "fst (simulate_batch demo_externals demo_heap [demo_env, demo_env] (Cuda 0) False)
     = Inr \<lparr>entries = [[40], [40]], tensor_dtype = Float32, tensor_device = Cuda 0\<rparr>"
    by (simp add: demo_externals_def)
  from C9_device_and_float32[where x = demo_externals and h = demo_heap
      and sims = "[demo_env, demo_env]" and dev = "Cuda 0" and logger = False
      and t = "\<lparr>entries = [[40], [40]], tensor_dtype = Float32, tensor_device = Cuda 0\<rparr>",
      THEN conjunct1, rule_format, OF 1]
  have 2: "tensor_device \<lparr>entries = [[40], [40]], tensor_dtype = Float32, tensor_device = Cuda 0\<rparr>
       = Cuda 0"
    by simp
  from 1 2 show ?thesis by (rule conjI)
qed

text \<open>
  Against C10 as stated: a row longer than the name list can still end in an error. With
  one meal name, a scenario of two entries and meal patching on, the second entry finds
  no value.
\<close>

theorem C10_counterexample:
  "fst (set_custom_params demo_env [60, 1, 2] \<lparr>params_names = [''meal_1'']\<rparr> True two_meal_heap)
     = Inl IndexError"
  by (simp add: set_custom_params_long meal_entries_def enumerate_eq_zip two_meal_heap_def
      demo_env_def)

text \<open>
  C10 (amended). A row with more entries than there are parameter names is treated exactly
  as the row cut to the number of names: separating the parameters raises nothing and
  reads the same values, and the patcher has the same outcome and leaves the same store.
  The surplus entries raise no error of their own and have no effect.
\<close>

theorem C10_surplus_ignored:
  assumes "length (params_names ip) < length theta"
  shows "\<not> isl (separate_parameters (params_names ip) theta)
    \<and> separate_parameters (params_names ip) theta
        = separate_parameters (params_names ip) (take (length (params_names ip)) theta)
    \<and> set_custom_params e theta ip infer_meal_params h
        = set_custom_params e (take (length (params_names ip)) theta) ip infer_meal_params h"
proof -
  have l: "length (params_names ip) \<le> length theta" using assms by simp
  have t: "length (params_names ip) \<le> length (take (length (params_names ip)) theta)"
    using assms by simp
  have v: "map ((!) (take (length (params_names ip)) theta)) (map fst (meal_entries (params_names ip)))
        = map ((!) theta) (map fst (meal_entries (params_names ip)))"
     "map ((!) (take (length (params_names ip)) theta))
          (map fst (non_meal_indices_and_params (params_names ip)))
        = map ((!) theta) (map fst (non_meal_indices_and_params (params_names ip)))"
    using values_take[OF l] unfolding meal_values_of_def other_values_of_def by simp_all
  have a: "\<not> isl (separate_parameters (params_names ip) theta)"
    unfolding separate_parameters_long[OF l] by simp
  have b: "separate_parameters (params_names ip) theta
        = separate_parameters (params_names ip) (take (length (params_names ip)) theta)"
    unfolding separate_parameters_long[OF l] separate_parameters_long[OF t] v by (rule refl)
  have c: "set_custom_params e theta ip infer_meal_params h
        = set_custom_params e (take (length (params_names ip)) theta) ip infer_meal_params h"
    unfolding set_custom_params_long[OF l] set_custom_params_long[OF t] values_take[OF l]
    by (rule refl)
  from a b c show ?thesis by blast
qed

theorem C10_surplus_ignored_witness:
  "\<not> isl (separate_parameters [''BW'', ''meal_1''] [70, 60, 1, 2])
   \<and> set_custom_params demo_env [70, 60, 1, 2] \<lparr>params_names = [''BW'', ''meal_1'']\<rparr> True demo_heap
     = set_custom_params demo_env [70, 60] \<lparr>params_names = [''BW'', ''meal_1'']\<rparr> True demo_heap"
proof -
  have len: "length (params_names \<lparr>params_names = [''BW'', ''meal_1'']\<rparr>) < length [70, 60, 1, 2 :: real]"
    by simp
  note th = C10_surplus_ignored[OF len, of demo_env True demo_heap]
  from th[THEN conjunct1] have a: "\<not> isl (separate_parameters [''BW'', ''meal_1''] [70, 60, 1, 2])"
    by simp
  from th[THEN conjunct2, THEN conjunct2]
  have b: "set_custom_params demo_env [70, 60, 1, 2] \<lparr>params_names = [''BW'', ''meal_1'']\<rparr> True demo_heap
     = set_custom_params demo_env [70, 60] \<lparr>params_names = [''BW'', ''meal_1'']\<rparr> True demo_heap"
    by simp
  from a b show ?thesis by (rule conjI)
qed

end
